theory Spec2Isabelle
  imports Main
begin

section \<open>Enders-Sync: the RPC dispatcher of \<^verbatim>\<open>src/server.ts\<close>\<close>

text \<open>
  A shallow embedding of the class \<^verbatim>\<open>RPC\<close> (its registry, \<^verbatim>\<open>add\<close>, \<^verbatim>\<open>dump\<close>,
  \<^verbatim>\<open>handleError\<close> and the dispatcher \<^verbatim>\<open>handler\<close>) and of \<^verbatim>\<open>RPCError\<close>.
  The request body is whatever JSON the client sent, so the fields of a request are
  JavaScript values and the dispatcher's checks on them are written out.
\<close>

subsection \<open>JavaScript values\<close>

text \<open>
  The values the dispatcher can meet in a request body, in a validator's result or as a
  handler's result. Of a number only its truthiness is ever inspected: \<open>JNum\<close> carries
  the finite numbers (0 stands for both zeros), \<open>JNaN\<close> is the one non-finite falsy number.
  An object is its list of own properties.
\<close>

datatype jsval =
    JUndefined
  | JNull
  | JBool bool
  | JNum int
  | JNaN
  | JStr string
  | JArr "jsval list"
  | JObj "(string \<times> jsval) list"

text \<open>\<^verbatim>\<open>!!v\<close>: the falsy values are undefined, null, false, 0, NaN and the empty string.\<close>

fun truthy :: "jsval \<Rightarrow> bool" where
  "truthy JUndefined = False"
| "truthy JNull = False"
| "truthy (JBool b) = b"
| "truthy (JNum n) = (n \<noteq> 0)"
| "truthy JNaN = False"
| "truthy (JStr s) = (s \<noteq> [])"
| "truthy (JArr xs) = True"
| "truthy (JObj kvs) = True"

text \<open>\<^verbatim>\<open>typeof v === 'string'\<close> and \<^verbatim>\<open>Array.isArray(v)\<close>.\<close>

fun typeof_string :: "jsval \<Rightarrow> bool" where
  "typeof_string (JStr s) = True"
| "typeof_string v = False"

fun isArray :: "jsval \<Rightarrow> bool" where
  "isArray (JArr xs) = True"
| "isArray v = False"

text \<open>
  \<^verbatim>\<open>...(params || [])\<close>: the elements of the array; a falsy \<^verbatim>\<open>params\<close> is replaced by
  the empty array first. (A truthy value that is not an array never reaches the spread:
  the dispatcher has returned before.)
\<close>

fun spread :: "jsval \<Rightarrow> jsval list" where
  "spread (JArr xs) = xs"
| "spread v = []"

definition params_or_empty :: "jsval \<Rightarrow> jsval" where
  "params_or_empty p = (if truthy p then p else JArr [])"

subsection \<open>The data model\<close>

text \<open>The express request and response objects are opaque to the dispatcher: it only
  passes them on. A request is identified by its cookie header, a response by a handle.\<close>

record http_request =
  headers_cookie :: "string option"

datatype http_response = HttpResponse nat

text \<open>The body of a call. \<open>rpc_method\<close> is the field \<^verbatim>\<open>method\<close>; a field the body
  does not have is \<open>JUndefined\<close>.\<close>

record rpc_request =
  rpc_method :: jsval
  params :: jsval
  version :: jsval

text \<open>\<^verbatim>\<open>RPCResponse\<close>: the optional fields \<^verbatim>\<open>data?\<close> and \<^verbatim>\<open>error?\<close> are \<open>None\<close> when the
  object literal the dispatcher returns has no such key.\<close>

record rpc_response =
  success :: bool
  data :: "jsval option"
  error :: "string option"
  code :: int

record metadata =
  auth :: "string \<rightharpoonup> jsval"
  req :: "http_request option"
  res :: "http_response option"

text \<open>\<^verbatim>\<open>class RPCError\<close>.\<close>

record rpc_error =
  error_label :: string
  error_params :: "string \<rightharpoonup> string"
  status_code :: int

text \<open>What a \<^verbatim>\<open>throw\<close> carries: an instance of \<^verbatim>\<open>RPCError\<close>, or any other value
  (an \<^verbatim>\<open>Error\<close> is an object with a \<^verbatim>\<open>message\<close> property).\<close>

datatype thrown = RPCErrorInstance rpc_error | OtherValue jsval

text \<open>A promise as \<^verbatim>\<open>await\<close> sees it: fulfilled, rejected, or never settled.\<close>

datatype promise = Fulfilled jsval | Rejected thrown | Pending

text \<open>\<^verbatim>\<open>RPCHandler\<close>: called with the metadata and the spread parameters, it returns a
  value, returns a promise, or throws. \<^verbatim>\<open>name\<close> is the function's own \<^verbatim>\<open>name\<close> property
  (empty for an anonymous function).\<close>

datatype handler_result = Returned jsval | ReturnedPromise promise | Threw thrown

record rpc_handler =
  name :: string
  call :: "metadata \<Rightarrow> jsval list \<Rightarrow> handler_result"

text \<open>\<^verbatim>\<open>ValidatorReturn\<close>. The type says \<^verbatim>\<open>success: boolean\<close>, the dispatcher compares it
  with \<^verbatim>\<open>=== false\<close>, so the field holds any value. A validator may also throw (or return
  \<^verbatim>\<open>null\<close> or \<^verbatim>\<open>undefined\<close>, on which reading \<^verbatim>\<open>success\<close> throws): \<open>VThrew\<close>.\<close>

record validator_return =
  vsuccess :: jsval
  vmetadata :: "metadata option"

datatype validator_result = VReturned validator_return | VThrew thrown

type_synonym validator_fn = "http_request \<Rightarrow> validator_result"

text \<open>\<^verbatim>\<open>RPCErrorHandler\<close>: renders the parameters of a labeled error, or throws.\<close>

datatype render_result = Rendered string | RenderThrew thrown

type_synonym rpc_error_handler = "(string \<rightharpoonup> string) \<Rightarrow> render_result"

text \<open>
  The state of an \<^verbatim>\<open>RPC\<close> object. \<open>rpc_functions\<close> is the field \<^verbatim>\<open>functions\<close>, a
  JavaScript \<^verbatim>\<open>Map\<close>, whose keys are enumerated in insertion order: an association
  list. The order of the renderer registry is never observed: a map.
\<close>

record rpc =
  error_handlers_registry :: "string \<rightharpoonup> rpc_error_handler"
  rpc_functions :: "(string \<times> rpc_handler) list"
  validator :: validator_fn

subsection \<open>The JavaScript \<^verbatim>\<open>Map\<close> operations used\<close>

text \<open>\<^verbatim>\<open>Map.prototype.set\<close>: an existing key keeps its position and takes the new value,
  a new key goes to the end.\<close>

fun map_set :: "(string \<times> 'v) list \<Rightarrow> string \<Rightarrow> 'v \<Rightarrow> (string \<times> 'v) list" where
  "map_set [] k v = [(k, v)]"
| "map_set ((k', v') # kvs) k v =
     (if k' = k then (k, v) # kvs else (k', v') # map_set kvs k v)"

fun map_get :: "(string \<times> 'v) list \<Rightarrow> string \<Rightarrow> 'v option" where
  "map_get [] k = None"
| "map_get ((k', v') # kvs) k = (if k' = k then Some v' else map_get kvs k)"

definition map_keys :: "(string \<times> 'v) list \<Rightarrow> string list" where
  "map_keys kvs = map fst kvs"

subsection \<open>Construction and registration\<close>

text \<open>\<^verbatim>\<open>new RPC()\<close>: both registries empty, the default validator accepts every request
  and returns no metadata.\<close>

definition default_validator :: validator_fn where
  "default_validator r = VReturned \<lparr>vsuccess = JBool True, vmetadata = None\<rparr>"

definition new_RPC :: rpc where
  "new_RPC = \<lparr>error_handlers_registry = Map.empty, rpc_functions = [], validator = default_validator\<rparr>"

definition handleError :: "string \<Rightarrow> rpc_error_handler \<Rightarrow> rpc \<Rightarrow> rpc" where
  "handleError label error_handler st =
     st\<lparr>error_handlers_registry := (error_handlers_registry st)(label \<mapsto> error_handler)\<rparr>"

datatype setup_error = Error string

text \<open>\<^verbatim>\<open>add(functionHandler, optional_name = null)\<close>: \<open>None\<close> is \<^verbatim>\<open>null\<close>. A truthy
  \<^verbatim>\<open>optional_name\<close> is a non-empty string.\<close>

definition resolved_name :: "rpc_handler \<Rightarrow> string option \<Rightarrow> string" where
  "resolved_name functionHandler optional_name =
     (case optional_name of
        None \<Rightarrow> name functionHandler
      | Some n \<Rightarrow> if n \<noteq> [] then n else name functionHandler)"

definition add :: "rpc_handler \<Rightarrow> string option \<Rightarrow> rpc \<Rightarrow> setup_error + rpc" where
  "add functionHandler optional_name st =
     (let func_name = resolved_name functionHandler optional_name in
      if func_name = [] then Inl (Error ''Function must have a name'')
      else Inr (st\<lparr>rpc_functions := map_set (rpc_functions st) func_name functionHandler\<rparr>))"

definition dump :: "rpc \<Rightarrow> string list" where
  "dump st = map_keys (rpc_functions st)"

subsection \<open>What a dispatch does besides returning\<close>

text \<open>
  The calls the dispatcher makes to code it was given (the validator, the resolved
  handler, a renderer) and the lines it writes with \<^verbatim>\<open>console.error\<close>, in the order
  they happen.
\<close>

datatype console_arg = LogText string | LogThrown thrown

datatype event =
    ValidatorCall http_request
  | HandlerCall rpc_handler metadata "jsval list"
  | RendererCall string "string \<rightharpoonup> string"
  | ConsoleError console_arg

text \<open>How the promise returned by the async method \<^verbatim>\<open>handler\<close> ends: fulfilled with a
  response, rejected with what was thrown and not caught, or never settled.\<close>

datatype outcome = Responded rpc_response | Raised thrown | NeverSettles

text \<open>The handlers a trace invoked, in order.\<close>

fun invoked :: "event list \<Rightarrow> rpc_handler list" where
  "invoked [] = []"
| "invoked (HandlerCall h md args # evs) = h # invoked evs"
| "invoked (ev # evs) = invoked evs"

subsection \<open>The dispatcher\<close>

text \<open>\<^verbatim>\<open>await functionHandler(...)\<close> inside \<^verbatim>\<open>try\<close>: \<open>Some (Inr v)\<close> when the handler
  returned \<open>v\<close> or a promise fulfilled with \<open>v\<close>, \<open>Some (Inl e)\<close> when control goes to the
  \<^verbatim>\<open>catch\<close> with \<open>e\<close>, \<open>None\<close> when the promise never settles.\<close>

fun await :: "handler_result \<Rightarrow> (thrown + jsval) option" where
  "await (Returned v) = Some (Inr v)"
| "await (ReturnedPromise (Fulfilled v)) = Some (Inr v)"
| "await (ReturnedPromise (Rejected e)) = Some (Inl e)"
| "await (ReturnedPromise Pending) = None"
| "await (Threw e) = Some (Inl e)"

text \<open>The \<^verbatim>\<open>catch (error)\<close> block.\<close>

definition on_catch :: "rpc \<Rightarrow> thrown \<Rightarrow> event list \<times> outcome" where
  "on_catch st e =
     (case e of
        RPCErrorInstance err \<Rightarrow>
          (case error_handlers_registry st (error_label err) of
             None \<Rightarrow>
               ([ConsoleError (LogText (''unhandled exception for label '' @ [CHR 0x22]
                                        @ error_label err @ [CHR 0x22]))],
                Responded \<lparr>success = False, data = None,
                           error = Some ''Error 500: operation failed'', code = 500\<rparr>)
           | Some error_handler \<Rightarrow>
               (case error_handler (error_params err) of
                  RenderThrew e' \<Rightarrow>
                    ([RendererCall (error_label err) (error_params err)], Raised e')
                | Rendered error_msg \<Rightarrow>
                    ([RendererCall (error_label err) (error_params err)],
                     Responded \<lparr>success = False, data = None,
                                error = Some error_msg, code = status_code err\<rparr>)))
      | OtherValue v \<Rightarrow>
          ([ConsoleError (LogThrown e)],
           Responded \<lparr>success = False, data = None,
                      error = Some ''Error 500: operation failed'', code = 500\<rparr>))"

text \<open>The \<^verbatim>\<open>try\<close> statement: the call, and what follows it.\<close>

definition try_call ::
  "rpc \<Rightarrow> rpc_handler \<Rightarrow> metadata \<Rightarrow> jsval list \<Rightarrow> event list \<times> outcome" where
  "try_call st functionHandler md args =
     (case await (call functionHandler md args) of
        None \<Rightarrow> ([HandlerCall functionHandler md args], NeverSettles)
      | Some (Inr result) \<Rightarrow>
          ([HandlerCall functionHandler md args],
           Responded \<lparr>success = True, data = Some result, error = None, code = 200\<rparr>)
      | Some (Inl e) \<Rightarrow>
          (HandlerCall functionHandler md args # fst (on_catch st e), snd (on_catch st e)))"

text \<open>\<^verbatim>\<open>validation.metadata || { auth: {} }\<close>, then the two assignments to it.\<close>

definition call_metadata ::
  "validator_return \<Rightarrow> http_request \<Rightarrow> http_response \<Rightarrow> metadata" where
  "call_metadata validation rq rs =
     (case vmetadata validation of
        Some m \<Rightarrow> m
      | None \<Rightarrow> \<lparr>auth = Map.empty, req = None, res = None\<rparr>)
     \<lparr>req := Some rq, res := Some rs\<rparr>"

text \<open>
  \<^verbatim>\<open>RPC.handler(requestData, req, res)\<close>. The test \<^verbatim>\<open>typeof methodName !== 'string'\<close>
  is the last branch of the case on \<open>methodName\<close>: every value that is not a string
  ends there, before \<^verbatim>\<open>params\<close> is looked at.
\<close>

definition handler ::
  "rpc \<Rightarrow> rpc_request \<Rightarrow> http_request \<Rightarrow> http_response \<Rightarrow> event list \<times> outcome" where
  "handler st requestData rq rs =
     (let methodName = rpc_method requestData; ps = params requestData in
      if \<not> truthy methodName then
        ([], Responded \<lparr>success = False, data = None,
               error = Some (''bad request: the request need to have '' @ [CHR 0x22] @ ''method''
                             @ [CHR 0x22] @ '' and '' @ [CHR 0x22] @ ''params'' @ [CHR 0x22]),
               code = 400\<rparr>)
      else case methodName of
        JStr m \<Rightarrow>
          if truthy ps \<and> \<not> isArray ps then
            ([], Responded \<lparr>success = False, data = None,
                   error = Some ''bad request: RPC params should be a list'', code = 400\<rparr>)
          else
            (case map_get (rpc_functions st) m of
               None \<Rightarrow>
                 ([], Responded \<lparr>success = False, data = None,
                        error = Some (''RPC function '' @ [CHR 0x27] @ m @ [CHR 0x27]
                                      @ '' not found''),
                        code = 400\<rparr>)
             | Some functionHandler \<Rightarrow>
                 (case validator st rq of
                    VThrew e \<Rightarrow> ([ValidatorCall rq], Raised e)
                  | VReturned validation \<Rightarrow>
                      if vsuccess validation = JBool False then
                        ([ValidatorCall rq],
                         Responded \<lparr>success = False, data = None,
                                    error = Some ''authorization failed'', code = 403\<rparr>)
                      else
                        (let r = try_call st functionHandler (call_metadata validation rq rs)
                                   (spread (params_or_empty ps))
                         in (ValidatorCall rq # fst r, snd r))))
      | _ \<Rightarrow>
          ([], Responded \<lparr>success = False, data = None,
                 error = Some (''bad request: RPC function doesn'' @ [CHR 0x27] @ ''t exist''),
                 code = 404\<rparr>))"

subsection \<open>The life of an \<^verbatim>\<open>RPC\<close> object\<close>

text \<open>
  What a host does with an \<^verbatim>\<open>RPC\<close> object after \<^verbatim>\<open>new RPC()\<close>: it registers handlers
  and renderers, assigns the public field \<^verbatim>\<open>validator\<close>, dispatches requests and lists
  the names. A call of \<^verbatim>\<open>add\<close> that throws leaves the object as it was; \<^verbatim>\<open>handler\<close> and
  \<^verbatim>\<open>dump\<close> assign to no field. The validator, the handlers and the renderers are
  functions of their arguments: they do not reach back into the object.
\<close>

datatype op =
    Add rpc_handler "string option"
  | HandleError string rpc_error_handler
  | SetValidator validator_fn
  | Dispatch rpc_request http_request http_response
  | Dump

fun step :: "rpc \<Rightarrow> op \<Rightarrow> rpc" where
  "step st (Add functionHandler optional_name) =
     (case add functionHandler optional_name st of Inl e \<Rightarrow> st | Inr st' \<Rightarrow> st')"
| "step st (HandleError label error_handler) = handleError label error_handler st"
| "step st (SetValidator v) = st\<lparr>validator := v\<rparr>"
| "step st (Dispatch requestData rq rs) = st"
| "step st Dump = st"

definition run :: "op list \<Rightarrow> rpc" where
  "run ops = foldl step new_RPC ops"

fun is_Add :: "op \<Rightarrow> bool" where
  "is_Add (Add functionHandler optional_name) = True"
| "is_Add other = False"

text \<open>
  Insertion order, as the specification of what \<^verbatim>\<open>Map.prototype.keys\<close> enumerates: of
  the names the successful calls of \<^verbatim>\<open>add\<close> registered, in the order of the calls, each
  name once, at the place of its first registration.
\<close>

fun insertion_order :: "string list \<Rightarrow> string list" where
  "insertion_order [] = []"
| "insertion_order (k # ks) = k # filter (\<lambda>k'. k' \<noteq> k) (insertion_order ks)"

fun names_added :: "op \<Rightarrow> string list" where
  "names_added (Add functionHandler optional_name) =
     (if resolved_name functionHandler optional_name = [] then []
      else [resolved_name functionHandler optional_name])"
| "names_added other = []"

subsection \<open>Sample handlers, validators and renderers\<close>

text \<open>Concrete values at which the theorems below are instantiated.\<close>

fun echo_call :: "metadata \<Rightarrow> jsval list \<Rightarrow> handler_result" where
  "echo_call md args = Returned (JArr args)"

definition echo :: rpc_handler where
  "echo = \<lparr>name = ''echo'', call = echo_call\<rparr>"

fun later_call :: "metadata \<Rightarrow> jsval list \<Rightarrow> handler_result" where
  "later_call md args = ReturnedPromise (Fulfilled (JStr ''done''))"

definition later :: rpc_handler where
  "later = \<lparr>name = ''later'', call = later_call\<rparr>"

definition conflict :: rpc_error where
  "conflict = \<lparr>error_label = ''conflict'', error_params = [''who'' \<mapsto> ''bob''],
               status_code = 409\<rparr>"

fun deny_call :: "metadata \<Rightarrow> jsval list \<Rightarrow> handler_result" where
  "deny_call md args = Threw (RPCErrorInstance conflict)"

definition deny :: rpc_handler where
  "deny = \<lparr>name = ''deny'', call = deny_call\<rparr>"

fun crash_call :: "metadata \<Rightarrow> jsval list \<Rightarrow> handler_result" where
  "crash_call md args = Threw (OtherValue (JObj [(''message'', JStr ''disk full'')]))"

definition crash :: rpc_handler where
  "crash = \<lparr>name = ''crash'', call = crash_call\<rparr>"

fun say_conflict :: rpc_error_handler where
  "say_conflict ps = Rendered (''conflict with '' @ (case ps ''who'' of None \<Rightarrow> [] | Some w \<Rightarrow> w))"

fun reject_all :: validator_fn where
  "reject_all r = VReturned \<lparr>vsuccess = JBool False, vmetadata = None\<rparr>"

fun no_verdict :: validator_fn where
  "no_verdict r = VReturned \<lparr>vsuccess = JUndefined, vmetadata = None\<rparr>"

definition some_request :: http_request where
  "some_request = \<lparr>headers_cookie = None\<rparr>"

definition some_response :: http_response where
  "some_response = HttpResponse 0"

section \<open>Auxiliary facts\<close>

subsection \<open>The registry as an insertion-ordered map\<close>

lemma map_keys_map_set:
  "map_keys (map_set kvs k v) = (if k \<in> set (map_keys kvs) then map_keys kvs else map_keys kvs @ [k])"
proof (induction kvs)
  case Nil
  show ?case by (simp add: map_keys_def)
next
  case (Cons p kvs)
  obtain k' v' where p: "p = (k', v')" by (cases p)
  show ?case
  proof (cases "k' = k")
    case True
    then show ?thesis by (simp add: p map_keys_def)
  next
    case False
    with Cons show ?thesis by (simp add: p map_keys_def)
  qed
qed

lemma map_get_map_set:
  "map_get (map_set kvs k v) k' = (if k' = k then Some v else map_get kvs k')"
  by (induction kvs) auto

lemma map_get_None_iff: "map_get kvs k = None \<longleftrightarrow> k \<notin> set (map_keys kvs)"
proof (induction kvs)
  case Nil
  show ?case by (simp add: map_keys_def)
next
  case (Cons p kvs)
  obtain k' v' where p: "p = (k', v')" by (cases p)
  from Cons show ?case by (simp add: p map_keys_def)
qed

lemma distinct_map_set:
  "distinct (map_keys kvs) \<Longrightarrow> distinct (map_keys (map_set kvs k v))"
  by (simp add: map_keys_map_set)

lemma run_snoc: "run (ops @ [x]) = step (run ops) x"
  by (simp add: run_def)

lemma run_Nil: "run [] = new_RPC"
  by (simp add: run_def)

lemma dump_step:
  "dump (step st x) =
     (case x of
        Add h n \<Rightarrow>
          (if resolved_name h n = [] \<or> resolved_name h n \<in> set (dump st) then dump st
           else dump st @ [resolved_name h n])
      | _ \<Rightarrow> dump st)"
  by (cases x) (simp_all add: add_def dump_def handleError_def map_keys_map_set Let_def)

lemma dump_run_distinct: "distinct (dump (run ops))"
proof (induction ops rule: rev_induct)
  case Nil
  show ?case by (simp add: run_Nil new_RPC_def dump_def map_keys_def)
next
  case (snoc x ops)
  then show ?case by (simp add: run_snoc dump_step split: op.splits)
qed

lemma dump_run_nonempty: "[] \<notin> set (dump (run ops))"
proof (induction ops rule: rev_induct)
  case Nil
  show ?case by (simp add: run_Nil new_RPC_def dump_def map_keys_def)
next
  case (snoc x ops)
  then show ?case by (auto simp: run_snoc dump_step split: op.splits)
qed

lemma registered_nonempty:
  assumes "map_get (rpc_functions (run ops)) m = Some fh"
  shows "m \<noteq> []"
proof
  assume "m = []"
  with assms have "[] \<in> set (map_keys (rpc_functions (run ops)))"
    using map_get_None_iff [of "rpc_functions (run ops)" "[]"] by simp
  then show False using dump_run_nonempty [of ops] by (simp add: dump_def)
qed


subsection \<open>A registry with one handler\<close>

lemma run_echo:
  "run [Add echo None]
     = \<lparr>error_handlers_registry = Map.empty, rpc_functions = [(''echo'', echo)],
        validator = default_validator\<rparr>"
  by (simp add: run_def new_RPC_def add_def Let_def resolved_name_def echo_def)

subsection \<open>The dispatcher past its checks\<close>

lemma handler_rejected:
  assumes "map_get (rpc_functions st) m = Some fh"
    and "rpc_method requestData = JStr m" and "m \<noteq> []"
    and "\<not> (truthy (params requestData) \<and> \<not> isArray (params requestData))"
    and "validator st rq = VReturned validation"
    and "vsuccess validation = JBool False"
  shows "handler st requestData rq rs
           = ([ValidatorCall rq],
              Responded \<lparr>success = False, data = None,
                         error = Some ''authorization failed'', code = 403\<rparr>)"
  using assms by (simp add: handler_def Let_def)

lemma handler_authorized:
  assumes "map_get (rpc_functions st) m = Some fh"
    and "rpc_method requestData = JStr m" and "m \<noteq> []"
    and "\<not> (truthy (params requestData) \<and> \<not> isArray (params requestData))"
    and "validator st rq = VReturned validation"
    and "vsuccess validation \<noteq> JBool False"
  shows "handler st requestData rq rs
           = (ValidatorCall rq
                # fst (try_call st fh (call_metadata validation rq rs)
                        (spread (params_or_empty (params requestData)))),
              snd (try_call st fh (call_metadata validation rq rs)
                     (spread (params_or_empty (params requestData)))))"
  using assms by (simp add: handler_def Let_def)

lemma try_call_caught:
  assumes "call fh md args = Threw e \<or> call fh md args = ReturnedPromise (Rejected e)"
  shows "try_call st fh md args = (HandlerCall fh md args # fst (on_catch st e), snd (on_catch st e))"
  using assms by (auto simp: try_call_def)

lemma invoked_try_call: "invoked (fst (try_call st fh md args)) = [fh]"
  by (simp add: try_call_def on_catch_def
      split: option.splits sum.splits thrown.splits render_result.splits)

lemma on_catch_Responded:
  assumes "snd (on_catch st e) = Responded r"
  shows "\<not> success r \<and> data r = None \<and> error r \<noteq> None"
  using assms
  by (auto simp: on_catch_def split: thrown.splits option.splits render_result.splits)

lemma try_call_Responded:
  assumes "snd (try_call st fh md args) = Responded r"
  shows "(data r \<noteq> None \<longleftrightarrow> success r) \<and> (error r \<noteq> None \<longleftrightarrow> \<not> success r)"
proof (cases "await (call fh md args)")
  case None
  with assms show ?thesis by (simp add: try_call_def)
next
  case (Some a)
  show ?thesis
  proof (cases a)
    case (Inl e)
    with Some assms have "snd (on_catch st e) = Responded r" by (simp add: try_call_def)
    from on_catch_Responded [OF this] show ?thesis by simp
  next
    case (Inr v)
    with Some assms show ?thesis by (auto simp: try_call_def)
  qed
qed

lemma run_with_validator:
  "run [Add h None, SetValidator f]
     = (if name h = [] then \<lparr>error_handlers_registry = Map.empty, rpc_functions = [], validator = f\<rparr>
        else \<lparr>error_handlers_registry = Map.empty, rpc_functions = [(name h, h)], validator = f\<rparr>)"
  by (simp add: run_def new_RPC_def add_def Let_def resolved_name_def)

lemma try_call_trace: "\<exists>evs. fst (try_call st fh md args) = HandlerCall fh md args # evs"
  by (simp add: try_call_def split: option.splits sum.splits)

lemma run_with_renderer:
  "run [Add h None, HandleError l f]
     = (if name h = [] then \<lparr>error_handlers_registry = [l \<mapsto> f], rpc_functions = [],
                              validator = default_validator\<rparr>
        else \<lparr>error_handlers_registry = [l \<mapsto> f], rpc_functions = [(name h, h)],
               validator = default_validator\<rparr>)"
  by (simp add: run_def new_RPC_def add_def Let_def resolved_name_def handleError_def)

lemma run_one:
  "run [Add h None]
     = (if name h = [] then new_RPC
        else \<lparr>error_handlers_registry = Map.empty, rpc_functions = [(name h, h)],
               validator = default_validator\<rparr>)"
  by (simp add: run_def new_RPC_def add_def Let_def resolved_name_def)

subsection \<open>The order of the names\<close>

lemma set_insertion_order: "set (insertion_order ks) = set ks"
  by (induction ks) auto

lemma insertion_order_snoc:
  "insertion_order (ks @ [k])
     = (if k \<in> set ks then insertion_order ks else insertion_order ks @ [k])"
  by (induction ks) (auto simp: set_insertion_order)

lemma dump_handleError: "dump (handleError l f st) = dump st"
  by (simp add: dump_def handleError_def)

lemma dump_validator_update: "dump (st\<lparr>validator := v\<rparr>) = dump st"
  by (simp add: dump_def)

lemma dump_run_insertion_order:
  "dump (run ops) = insertion_order (concat (map names_added ops))"
proof (induction ops rule: rev_induct)
  case Nil
  show ?case by (simp add: run_Nil new_RPC_def dump_def map_keys_def)
next
  case (snoc x ops)
  show ?case
  proof (cases x)
    case (Add h n)
    let ?n = "resolved_name h n"
    have d: "dump (run (ops @ [x]))
               = (if ?n = [] \<or> ?n \<in> set (dump (run ops)) then dump (run ops)
                  else dump (run ops) @ [?n])"
      by (simp only: run_snoc Add dump_step op.case)
    have c: "insertion_order (concat (map names_added (ops @ [x])))
               = (if ?n = [] \<or> ?n \<in> set (concat (map names_added ops))
                  then insertion_order (concat (map names_added ops))
                  else insertion_order (concat (map names_added ops)) @ [?n])"
      by (simp add: Add insertion_order_snoc)
    show ?thesis
      unfolding d c by (simp add: snoc set_insertion_order)
  qed (simp_all add: run_snoc snoc dump_handleError dump_validator_update)
qed

lemma dump_foldl_no_Add:
  "\<not> list_ex is_Add ops' \<Longrightarrow> dump (foldl step st ops') = dump st"
proof (induction ops' arbitrary: st)
  case Nil
  show ?case by simp
next
  case (Cons x ops')
  from Cons.prems have "dump (step st x) = dump st"
    by (cases x) (simp_all add: dump_handleError dump_validator_update)
  with Cons show ?case by simp
qed

lemma dump_registered: "n \<in> set (dump st) \<longleftrightarrow> map_get (rpc_functions st) n \<noteq> None"
  by (simp add: dump_def map_get_None_iff)

lemma count_list_distinct: "distinct xs \<Longrightarrow> x \<in> set xs \<Longrightarrow> count_list xs x = 1"
  by (induction xs) (auto simp: count_list_0_iff)

section \<open>The claims\<close>

text \<open>
  C1. A request whose method names a registered handler, whose \<^verbatim>\<open>params\<close> is absent or
  a list, and which the validator authorizes (its result's \<^verbatim>\<open>success\<close> is not
  \<^verbatim>\<open>false\<close>), gets the envelope \<^verbatim>\<open>{success: true, data: v, code: 200}\<close> without an
  \<^verbatim>\<open>error\<close> key, where \<open>v\<close> is the value the resolved handler returned, or the value
  its promise was fulfilled with. The object is any one that a host can build from
  \<^verbatim>\<open>new RPC()\<close>.
\<close>

theorem dispatch_success:
  assumes registered: "map_get (rpc_functions (run ops)) m = Some fh"
    and names: "rpc_method requestData = JStr m"
    and shape: "params requestData = JUndefined \<or> isArray (params requestData)"
    and validated: "validator (run ops) rq = VReturned validation"
    and authorized: "vsuccess validation \<noteq> JBool False"
    and returned:
      "call fh (call_metadata validation rq rs) (spread (params_or_empty (params requestData)))
         = Returned v
       \<or> call fh (call_metadata validation rq rs) (spread (params_or_empty (params requestData)))
         = ReturnedPromise (Fulfilled v)"
  shows "snd (handler (run ops) requestData rq rs)
           = Responded \<lparr>success = True, data = Some v, error = None, code = 200\<rparr>"
proof -
  have m: "m \<noteq> []" using registered by (rule registered_nonempty)
  have ok: "\<not> (truthy (params requestData) \<and> \<not> isArray (params requestData))"
    using shape by auto
  have aw: "await (call fh (call_metadata validation rq rs)
                     (spread (params_or_empty (params requestData)))) = Some (Inr v)"
    using returned by auto
  show ?thesis
    using m ok registered validated authorized aw
    by (simp add: handler_def names try_call_def Let_def)
qed

theorem dispatch_success_witness:
  "map_get (rpc_functions (run [Add echo None])) ''echo'' = Some echo
   \<and> rpc_method \<lparr>rpc_method = JStr ''echo'', params = JArr [JNum 7], version = JNum 1\<rparr> = JStr ''echo''
   \<and> isArray (params \<lparr>rpc_method = JStr ''echo'', params = JArr [JNum 7], version = JNum 1\<rparr>)
   \<and> validator (run [Add echo None]) some_request
        = VReturned \<lparr>vsuccess = JBool True, vmetadata = None\<rparr>
   \<and> snd (handler (run [Add echo None])
             \<lparr>rpc_method = JStr ''echo'', params = JArr [JNum 7], version = JNum 1\<rparr>
             some_request some_response)
        = Responded \<lparr>success = True, data = Some (JArr [JNum 7]), error = None, code = 200\<rparr>"
proof -
  have r: "run [Add echo None]
             = \<lparr>error_handlers_registry = Map.empty, rpc_functions = [(''echo'', echo)],
                validator = default_validator\<rparr>"
    by (simp add: run_def new_RPC_def add_def Let_def resolved_name_def echo_def)
  have v: "validator (run [Add echo None]) some_request
             = VReturned \<lparr>vsuccess = JBool True, vmetadata = None\<rparr>"
    by (simp add: r default_validator_def)
  have g: "map_get (rpc_functions (run [Add echo None])) ''echo'' = Some echo"
    by (simp add: r)
  show ?thesis
    using dispatch_success [where ops = "[Add echo None]" and m = "''echo''" and fh = echo
        and requestData = "\<lparr>rpc_method = JStr ''echo'', params = JArr [JNum 7], version = JNum 1\<rparr>"
        and rq = some_request and rs = some_response
        and validation = "\<lparr>vsuccess = JBool True, vmetadata = None\<rparr>"
        and v = "JArr [JNum 7]"]
      g v
    by (simp add: echo_def params_or_empty_def)
qed

text \<open>
  C2, as amended. The shape checks run in a fixed order and the first that fails ends
  the dispatch with an empty trace (no validator call, no handler call) and a response
  that does not depend on the object's registries: a falsy \<^verbatim>\<open>method\<close> gives status 400;
  otherwise a \<^verbatim>\<open>method\<close> that is not a string gives 404; otherwise a \<^verbatim>\<open>params\<close> that is
  truthy and not a list gives 400. A falsy \<^verbatim>\<open>params\<close> (absent, \<^verbatim>\<open>null\<close>, \<^verbatim>\<open>false\<close>, 0,
  \<^verbatim>\<open>NaN\<close>, the empty string) is not rejected: the dispatch goes on as with an empty
  list.
\<close>

theorem shape_order:
  "(\<not> truthy (rpc_method requestData) \<longrightarrow>
      handler st requestData rq rs
        = ([], Responded \<lparr>success = False, data = None,
                 error = Some (''bad request: the request need to have '' @ [CHR 0x22] @ ''method''
                               @ [CHR 0x22] @ '' and '' @ [CHR 0x22] @ ''params'' @ [CHR 0x22]),
                 code = 400\<rparr>))
   \<and> (truthy (rpc_method requestData) \<and> \<not> typeof_string (rpc_method requestData) \<longrightarrow>
      handler st requestData rq rs
        = ([], Responded \<lparr>success = False, data = None,
                 error = Some (''bad request: RPC function doesn'' @ [CHR 0x27] @ ''t exist''),
                 code = 404\<rparr>))
   \<and> (truthy (rpc_method requestData) \<and> typeof_string (rpc_method requestData)
        \<and> truthy (params requestData) \<and> \<not> isArray (params requestData) \<longrightarrow>
      handler st requestData rq rs
        = ([], Responded \<lparr>success = False, data = None,
                 error = Some ''bad request: RPC params should be a list'', code = 400\<rparr>))
   \<and> (\<not> truthy (params requestData) \<longrightarrow>
      handler st requestData rq rs = handler st (requestData\<lparr>params := JArr []\<rparr>) rq rs)"
proof -
  have falsy: "\<not> truthy (rpc_method requestData) \<Longrightarrow>
      handler st requestData rq rs
        = ([], Responded \<lparr>success = False, data = None,
                 error = Some (''bad request: the request need to have '' @ [CHR 0x22] @ ''method''
                               @ [CHR 0x22] @ '' and '' @ [CHR 0x22] @ ''params'' @ [CHR 0x22]),
                 code = 400\<rparr>)"
    by (simp add: handler_def Let_def)
  have not_string: "truthy (rpc_method requestData) \<Longrightarrow> \<not> typeof_string (rpc_method requestData) \<Longrightarrow>
      handler st requestData rq rs
        = ([], Responded \<lparr>success = False, data = None,
                 error = Some (''bad request: RPC function doesn'' @ [CHR 0x27] @ ''t exist''),
                 code = 404\<rparr>)"
    by (cases "rpc_method requestData") (simp_all add: handler_def Let_def)
  have not_list: "truthy (rpc_method requestData) \<Longrightarrow> typeof_string (rpc_method requestData) \<Longrightarrow>
      truthy (params requestData) \<Longrightarrow> \<not> isArray (params requestData) \<Longrightarrow>
      handler st requestData rq rs
        = ([], Responded \<lparr>success = False, data = None,
                 error = Some ''bad request: RPC params should be a list'', code = 400\<rparr>)"
    by (cases "rpc_method requestData") (simp_all add: handler_def Let_def)
  have empty: "\<not> truthy (params requestData) \<Longrightarrow>
      handler st requestData rq rs = handler st (requestData\<lparr>params := JArr []\<rparr>) rq rs"
    by (simp add: handler_def Let_def params_or_empty_def
        split: jsval.splits option.splits validator_result.splits)
  from falsy not_string not_list empty show ?thesis by blast
qed

theorem shape_order_witness:
  "handler new_RPC \<lparr>rpc_method = JUndefined, params = JArr [], version = JNum 1\<rparr>
       some_request some_response
     = ([], Responded \<lparr>success = False, data = None,
              error = Some (''bad request: the request need to have '' @ [CHR 0x22] @ ''method''
                            @ [CHR 0x22] @ '' and '' @ [CHR 0x22] @ ''params'' @ [CHR 0x22]),
              code = 400\<rparr>)
   \<and> handler new_RPC \<lparr>rpc_method = JNum 5, params = JObj [], version = JNum 1\<rparr>
       some_request some_response
     = ([], Responded \<lparr>success = False, data = None,
              error = Some (''bad request: RPC function doesn'' @ [CHR 0x27] @ ''t exist''),
              code = 404\<rparr>)
   \<and> handler new_RPC \<lparr>rpc_method = JStr ''echo'', params = JObj [], version = JNum 1\<rparr>
       some_request some_response
     = ([], Responded \<lparr>success = False, data = None,
              error = Some ''bad request: RPC params should be a list'', code = 400\<rparr>)
   \<and> handler new_RPC \<lparr>rpc_method = JStr ''echo'', params = JNull, version = JNum 1\<rparr>
       some_request some_response
     = handler new_RPC \<lparr>rpc_method = JStr ''echo'', params = JArr [], version = JNum 1\<rparr>
       some_request some_response"
  using shape_order [of "\<lparr>rpc_method = JUndefined, params = JArr [], version = JNum 1\<rparr>"
                        new_RPC some_request some_response]
    shape_order [of "\<lparr>rpc_method = JNum 5, params = JObj [], version = JNum 1\<rparr>"
                    new_RPC some_request some_response]
    shape_order [of "\<lparr>rpc_method = JStr ''echo'', params = JObj [], version = JNum 1\<rparr>"
                    new_RPC some_request some_response]
    shape_order [of "\<lparr>rpc_method = JStr ''echo'', params = JNull, version = JNum 1\<rparr>"
                    new_RPC some_request some_response]
  by simp

text \<open>
  C2 as stated fails: the empty string is a \<^verbatim>\<open>params\<close> that is present and not a
  list, and the call of the registered \<^verbatim>\<open>echo\<close> succeeds with status 200, the handler
  having run without arguments.
\<close>

theorem shape_order_counterexample:
  "params \<lparr>rpc_method = JStr ''echo'', params = JStr '''', version = JNum 1\<rparr> \<noteq> JUndefined
   \<and> \<not> isArray (params \<lparr>rpc_method = JStr ''echo'', params = JStr '''', version = JNum 1\<rparr>)
   \<and> truthy (rpc_method \<lparr>rpc_method = JStr ''echo'', params = JStr '''', version = JNum 1\<rparr>)
   \<and> typeof_string (rpc_method \<lparr>rpc_method = JStr ''echo'', params = JStr '''', version = JNum 1\<rparr>)
   \<and> snd (handler (run [Add echo None])
            \<lparr>rpc_method = JStr ''echo'', params = JStr '''', version = JNum 1\<rparr>
            some_request some_response)
       = Responded \<lparr>success = True, data = Some (JArr []), error = None, code = 200\<rparr>
   \<and> invoked (fst (handler (run [Add echo None])
            \<lparr>rpc_method = JStr ''echo'', params = JStr '''', version = JNum 1\<rparr>
            some_request some_response))
       = [echo]"
  unfolding run_echo
  by (simp add: handler_def try_call_def call_metadata_def params_or_empty_def
      default_validator_def echo_def)

text \<open>
  C3. A request that passes the shape checks and whose method names no registered
  handler gets \<^verbatim>\<open>success: false\<close> with status 400, not 404, and the error text
  \<^verbatim>\<open>RPC function '<method>' not found\<close>, which contains the requested name. Neither
  the validator nor any handler is called.
\<close>

theorem unknown_method:
  assumes names: "rpc_method requestData = JStr m"
    and nonempty: "truthy (rpc_method requestData)"
    and shape: "\<not> (truthy (params requestData) \<and> \<not> isArray (params requestData))"
    and unregistered: "map_get (rpc_functions st) m = None"
  shows "handler st requestData rq rs
           = ([], Responded \<lparr>success = False, data = None,
                    error = Some (''RPC function '' @ [CHR 0x27] @ m @ [CHR 0x27] @ '' not found''),
                    code = 400\<rparr>)
         \<and> (\<exists>r before after. snd (handler st requestData rq rs) = Responded r
               \<and> \<not> success r \<and> code r = 400 \<and> code r \<noteq> 404
               \<and> error r = Some (before @ m @ after))"
proof -
  have eq: "handler st requestData rq rs
           = ([], Responded \<lparr>success = False, data = None,
                    error = Some (''RPC function '' @ [CHR 0x27] @ m @ [CHR 0x27] @ '' not found''),
                    code = 400\<rparr>)"
    using assms by (simp add: handler_def Let_def)
  have "\<exists>before after.
          ''RPC function '' @ [CHR 0x27] @ m @ [CHR 0x27] @ '' not found'' = before @ m @ after"
    by (rule exI [where x = "''RPC function '' @ [CHR 0x27]"],
        rule exI [where x = "[CHR 0x27] @ '' not found''"]) simp
  then show ?thesis unfolding eq by simp
qed

theorem unknown_method_witness:
  "rpc_method \<lparr>rpc_method = JStr ''nope'', params = JUndefined, version = JNum 1\<rparr> = JStr ''nope''
   \<and> map_get (rpc_functions (run [Add echo None])) ''nope'' = None
   \<and> handler (run [Add echo None])
        \<lparr>rpc_method = JStr ''nope'', params = JUndefined, version = JNum 1\<rparr>
        some_request some_response
       = ([], Responded \<lparr>success = False, data = None,
                error = Some (''RPC function '' @ [CHR 0x27] @ ''nope'' @ [CHR 0x27] @ '' not found''),
                code = 400\<rparr>)"
  using unknown_method [of "\<lparr>rpc_method = JStr ''nope'', params = JUndefined, version = JNum 1\<rparr>"
      "''nope''" "run [Add echo None]" some_request some_response]
  unfolding run_echo by simp

text \<open>
  C4. When a request reaches the authorization step (its method is registered and its
  shape passed) and the validator's result has \<^verbatim>\<open>success === false\<close>, the response is
  \<^verbatim>\<open>{success: false, error: "authorization failed", code: 403}\<close> and the trace of the
  dispatch holds no handler call.
\<close>

theorem rejected_call:
  assumes registered: "map_get (rpc_functions (run ops)) m = Some fh"
    and names: "rpc_method requestData = JStr m"
    and shape: "\<not> (truthy (params requestData) \<and> \<not> isArray (params requestData))"
    and validated: "validator (run ops) rq = VReturned validation"
    and rejected: "vsuccess validation = JBool False"
  shows "snd (handler (run ops) requestData rq rs)
           = Responded \<lparr>success = False, data = None,
                        error = Some ''authorization failed'', code = 403\<rparr>
         \<and> invoked (fst (handler (run ops) requestData rq rs)) = []"
proof -
  have m: "m \<noteq> []" using registered by (rule registered_nonempty)
  show ?thesis
    by (simp add: handler_rejected [OF registered names m shape validated rejected])
qed

theorem rejected_call_witness:
  "map_get (rpc_functions (run [Add echo None, SetValidator reject_all])) ''echo'' = Some echo
   \<and> validator (run [Add echo None, SetValidator reject_all]) some_request
        = VReturned \<lparr>vsuccess = JBool False, vmetadata = None\<rparr>
   \<and> snd (handler (run [Add echo None, SetValidator reject_all])
             \<lparr>rpc_method = JStr ''echo'', params = JArr [JNum 7], version = JNum 1\<rparr>
             some_request some_response)
        = Responded \<lparr>success = False, data = None,
                     error = Some ''authorization failed'', code = 403\<rparr>
   \<and> invoked (fst (handler (run [Add echo None, SetValidator reject_all])
             \<lparr>rpc_method = JStr ''echo'', params = JArr [JNum 7], version = JNum 1\<rparr>
             some_request some_response)) = []"
proof -
  have r: "run [Add echo None, SetValidator reject_all]
             = \<lparr>error_handlers_registry = Map.empty, rpc_functions = [(''echo'', echo)],
                validator = reject_all\<rparr>"
    by (simp add: run_with_validator) (simp add: echo_def)
  show ?thesis
    using rejected_call [where ops = "[Add echo None, SetValidator reject_all]"
        and m = "''echo''" and fh = echo
        and requestData = "\<lparr>rpc_method = JStr ''echo'', params = JArr [JNum 7], version = JNum 1\<rparr>"
        and rq = some_request and rs = some_response
        and validation = "\<lparr>vsuccess = JBool False, vmetadata = None\<rparr>"]
    unfolding r by simp
qed

text \<open>
  C7. Every response the dispatcher produces, whatever the object's state, the request
  and the behaviour of validator, handler and renderer, has the key \<^verbatim>\<open>data\<close> exactly
  when \<^verbatim>\<open>success\<close> is true and the key \<^verbatim>\<open>error\<close> exactly when it is false. (A key is
  present when the returned object literal has it; for a handler that returns
  \<^verbatim>\<open>undefined\<close> the key \<^verbatim>\<open>data\<close> is there with that value.)
\<close>

theorem exactly_one_of_data_error:
  assumes "snd (handler st requestData rq rs) = Responded r"
  shows "(data r \<noteq> None \<longleftrightarrow> success r) \<and> (error r \<noteq> None \<longleftrightarrow> \<not> success r)"
proof -
  have "(\<not> success r \<and> data r = None \<and> error r \<noteq> None)
        \<or> (\<exists>fh md args. snd (try_call st fh md args) = Responded r)"
    using assms
    by (auto simp: handler_def Let_def
        split: if_splits jsval.splits option.splits validator_result.splits)
  then show ?thesis
  proof
    assume "\<not> success r \<and> data r = None \<and> error r \<noteq> None"
    then show ?thesis by simp
  next
    assume "\<exists>fh md args. snd (try_call st fh md args) = Responded r"
    then obtain fh md args where "snd (try_call st fh md args) = Responded r" by blast
    then show ?thesis by (rule try_call_Responded)
  qed
qed

theorem exactly_one_of_data_error_witness:
  "snd (handler (run [Add echo None])
          \<lparr>rpc_method = JStr ''echo'', params = JArr [JNull], version = JNum 1\<rparr>
          some_request some_response)
     = Responded \<lparr>success = True, data = Some (JArr [JNull]), error = None, code = 200\<rparr>
   \<and> (data \<lparr>success = True, data = Some (JArr [JNull]), error = None, code = 200\<rparr> \<noteq> None
        \<longleftrightarrow> success \<lparr>success = True, data = Some (JArr [JNull]), error = None, code = 200\<rparr>)
   \<and> (error \<lparr>success = True, data = Some (JArr [JNull]), error = None, code = 200\<rparr> \<noteq> None
        \<longleftrightarrow> \<not> success \<lparr>success = True, data = Some (JArr [JNull]), error = None, code = 200\<rparr>)"
proof -
  have h: "snd (handler (run [Add echo None])
          \<lparr>rpc_method = JStr ''echo'', params = JArr [JNull], version = JNum 1\<rparr>
          some_request some_response)
     = Responded \<lparr>success = True, data = Some (JArr [JNull]), error = None, code = 200\<rparr>"
    unfolding run_echo
    by (simp add: handler_def try_call_def call_metadata_def params_or_empty_def
        default_validator_def echo_def)
  from h exactly_one_of_data_error [OF h] show ?thesis by blast
qed

text \<open>
  C5. When the resolved handler fails with an \<^verbatim>\<open>RPCError\<close> (thrown, or as the reason of
  its rejected promise) whose label has a renderer in the registry, the response is
  \<^verbatim>\<open>success: false\<close> with the error message the renderer returns for the error's
  parameters and with the error's own status code.
\<close>

theorem rendered_error:
  assumes registered: "map_get (rpc_functions (run ops)) m = Some fh"
    and names: "rpc_method requestData = JStr m"
    and shape: "\<not> (truthy (params requestData) \<and> \<not> isArray (params requestData))"
    and validated: "validator (run ops) rq = VReturned validation"
    and authorized: "vsuccess validation \<noteq> JBool False"
    and failed:
      "call fh (call_metadata validation rq rs) (spread (params_or_empty (params requestData)))
         = Threw (RPCErrorInstance err)
       \<or> call fh (call_metadata validation rq rs) (spread (params_or_empty (params requestData)))
         = ReturnedPromise (Rejected (RPCErrorInstance err))"
    and has_renderer: "error_handlers_registry (run ops) (error_label err) = Some renderer"
    and rendered: "renderer (error_params err) = Rendered msg"
  shows "snd (handler (run ops) requestData rq rs)
           = Responded \<lparr>success = False, data = None, error = Some msg,
                        code = status_code err\<rparr>"
proof -
  have m: "m \<noteq> []" using registered by (rule registered_nonempty)
  have "snd (on_catch (run ops) (RPCErrorInstance err))
          = Responded \<lparr>success = False, data = None, error = Some msg,
                        code = status_code err\<rparr>"
    using has_renderer rendered by (simp add: on_catch_def)
  then show ?thesis
    by (simp add: handler_authorized [OF registered names m shape validated authorized]
        try_call_caught [OF failed])
qed

theorem rendered_error_witness:
  "map_get (rpc_functions (run [Add deny None, HandleError ''conflict'' say_conflict])) ''deny''
     = Some deny
   \<and> validator (run [Add deny None, HandleError ''conflict'' say_conflict]) some_request
       = VReturned \<lparr>vsuccess = JBool True, vmetadata = None\<rparr>
   \<and> call deny (call_metadata \<lparr>vsuccess = JBool True, vmetadata = None\<rparr>
                   some_request some_response) []
       = Threw (RPCErrorInstance conflict)
   \<and> error_handlers_registry (run [Add deny None, HandleError ''conflict'' say_conflict])
         (error_label conflict) = Some say_conflict
   \<and> say_conflict (error_params conflict) = Rendered ''conflict with bob''
   \<and> snd (handler (run [Add deny None, HandleError ''conflict'' say_conflict])
             \<lparr>rpc_method = JStr ''deny'', params = JUndefined, version = JNum 1\<rparr>
             some_request some_response)
       = Responded \<lparr>success = False, data = None, error = Some ''conflict with bob'',
                    code = 409\<rparr>"
proof -
  have r: "run [Add deny None, HandleError ''conflict'' say_conflict]
             = \<lparr>error_handlers_registry = [''conflict'' \<mapsto> say_conflict],
                rpc_functions = [(''deny'', deny)], validator = default_validator\<rparr>"
    by (simp add: run_with_renderer) (simp add: deny_def)
  have c: "call deny (call_metadata \<lparr>vsuccess = JBool True, vmetadata = None\<rparr>
                        some_request some_response) []
             = Threw (RPCErrorInstance conflict)"
    by (simp add: deny_def)
  have s: "say_conflict (error_params conflict) = Rendered ''conflict with bob''"
    by (simp add: conflict_def)
  show ?thesis
    using rendered_error [where ops = "[Add deny None, HandleError ''conflict'' say_conflict]"
        and m = "''deny''" and fh = deny
        and requestData = "\<lparr>rpc_method = JStr ''deny'', params = JUndefined, version = JNum 1\<rparr>"
        and rq = some_request and rs = some_response
        and validation = "\<lparr>vsuccess = JBool True, vmetadata = None\<rparr>"
        and err = conflict and renderer = say_conflict and msg = "''conflict with bob''"]
      c s
    unfolding r by (simp add: default_validator_def params_or_empty_def conflict_def)
qed

text \<open>
  C6. When the resolved handler fails with an \<^verbatim>\<open>RPCError\<close> whose label has no renderer,
  or with any value that is not an \<^verbatim>\<open>RPCError\<close>, the response is the fixed envelope
  \<^verbatim>\<open>{success: false, error: "Error 500: operation failed", code: 500}\<close>: no part of it
  comes from the failure, so neither the label, nor the parameters, nor the exception's
  message reach the caller. The dispatch writes one line with \<^verbatim>\<open>console.error\<close>: the
  label in the first case, the thrown value in the second.
\<close>

theorem generic_failure:
  assumes registered: "map_get (rpc_functions (run ops)) m = Some fh"
    and names: "rpc_method requestData = JStr m"
    and shape: "\<not> (truthy (params requestData) \<and> \<not> isArray (params requestData))"
    and validated: "validator (run ops) rq = VReturned validation"
    and authorized: "vsuccess validation \<noteq> JBool False"
    and failed:
      "call fh (call_metadata validation rq rs) (spread (params_or_empty (params requestData)))
         = Threw e
       \<or> call fh (call_metadata validation rq rs) (spread (params_or_empty (params requestData)))
         = ReturnedPromise (Rejected e)"
    and unrendered:
      "case e of
         RPCErrorInstance err \<Rightarrow> error_handlers_registry (run ops) (error_label err) = None
       | OtherValue v \<Rightarrow> True"
  shows "handler (run ops) requestData rq rs
           = ([ValidatorCall rq,
               HandlerCall fh (call_metadata validation rq rs)
                 (spread (params_or_empty (params requestData))),
               ConsoleError
                 (case e of
                    RPCErrorInstance err \<Rightarrow>
                      LogText (''unhandled exception for label '' @ [CHR 0x22]
                               @ error_label err @ [CHR 0x22])
                  | OtherValue v \<Rightarrow> LogThrown e)],
              Responded \<lparr>success = False, data = None,
                         error = Some ''Error 500: operation failed'', code = 500\<rparr>)"
proof -
  have m: "m \<noteq> []" using registered by (rule registered_nonempty)
  have "on_catch (run ops) e
          = ([ConsoleError
                 (case e of
                    RPCErrorInstance err \<Rightarrow>
                      LogText (''unhandled exception for label '' @ [CHR 0x22]
                               @ error_label err @ [CHR 0x22])
                  | OtherValue v \<Rightarrow> LogThrown e)],
             Responded \<lparr>success = False, data = None,
                        error = Some ''Error 500: operation failed'', code = 500\<rparr>)"
    using unrendered by (cases e) (simp_all add: on_catch_def)
  then show ?thesis
    by (simp add: handler_authorized [OF registered names m shape validated authorized]
        try_call_caught [OF failed])
qed

theorem generic_failure_witness:
  "snd (handler (run [Add deny None])
          \<lparr>rpc_method = JStr ''deny'', params = JUndefined, version = JNum 1\<rparr>
          some_request some_response)
     = Responded \<lparr>success = False, data = None,
                  error = Some ''Error 500: operation failed'', code = 500\<rparr>
   \<and> handler (run [Add crash None])
          \<lparr>rpc_method = JStr ''crash'', params = JArr [], version = JNum 1\<rparr>
          some_request some_response
     = ([ValidatorCall some_request,
         HandlerCall crash \<lparr>auth = Map.empty, req = Some some_request, res = Some some_response\<rparr> [],
         ConsoleError (LogThrown (OtherValue (JObj [(''message'', JStr ''disk full'')])))],
        Responded \<lparr>success = False, data = None,
                   error = Some ''Error 500: operation failed'', code = 500\<rparr>)"
proof -
  have r1: "run [Add deny None]
             = \<lparr>error_handlers_registry = Map.empty,
                rpc_functions = [(''deny'', deny)], validator = default_validator\<rparr>"
    by (simp add: run_one) (simp add: deny_def)
  have r2: "run [Add crash None]
             = \<lparr>error_handlers_registry = Map.empty,
                rpc_functions = [(''crash'', crash)], validator = default_validator\<rparr>"
    by (simp add: run_one) (simp add: crash_def)
  have c1: "call deny (call_metadata \<lparr>vsuccess = JBool True, vmetadata = None\<rparr>
                        some_request some_response) []
             = Threw (RPCErrorInstance conflict)"
    by (simp add: deny_def)
  have c2: "call crash (call_metadata \<lparr>vsuccess = JBool True, vmetadata = None\<rparr>
                        some_request some_response) []
             = Threw (OtherValue (JObj [(''message'', JStr ''disk full'')]))"
    by (simp add: crash_def)
  have a: "snd (handler (run [Add deny None])
          \<lparr>rpc_method = JStr ''deny'', params = JUndefined, version = JNum 1\<rparr>
          some_request some_response)
     = Responded \<lparr>success = False, data = None,
                  error = Some ''Error 500: operation failed'', code = 500\<rparr>"
    using generic_failure [where ops = "[Add deny None]" and m = "''deny''" and fh = deny
        and requestData = "\<lparr>rpc_method = JStr ''deny'', params = JUndefined, version = JNum 1\<rparr>"
        and rq = some_request and rs = some_response
        and validation = "\<lparr>vsuccess = JBool True, vmetadata = None\<rparr>"
        and e = "RPCErrorInstance conflict"]
      c1
    unfolding r1 by (simp add: default_validator_def params_or_empty_def)
  have b: "handler (run [Add crash None])
          \<lparr>rpc_method = JStr ''crash'', params = JArr [], version = JNum 1\<rparr>
          some_request some_response
     = ([ValidatorCall some_request,
         HandlerCall crash \<lparr>auth = Map.empty, req = Some some_request, res = Some some_response\<rparr> [],
         ConsoleError (LogThrown (OtherValue (JObj [(''message'', JStr ''disk full'')])))],
        Responded \<lparr>success = False, data = None,
                   error = Some ''Error 500: operation failed'', code = 500\<rparr>)"
    using generic_failure [where ops = "[Add crash None]" and m = "''crash''" and fh = crash
        and requestData = "\<lparr>rpc_method = JStr ''crash'', params = JArr [], version = JNum 1\<rparr>"
        and rq = some_request and rs = some_response
        and validation = "\<lparr>vsuccess = JBool True, vmetadata = None\<rparr>"
        and e = "OtherValue (JObj [(''message'', JStr ''disk full'')])"]
      c2
    unfolding r2 by (simp add: default_validator_def params_or_empty_def call_metadata_def)
  from a b show ?thesis by simp
qed

text \<open>
  C10. At the authorization step the call is rejected exactly when the validator's
  result has \<^verbatim>\<open>success === false\<close>: for every other value of the field (\<^verbatim>\<open>undefined\<close>,
  \<^verbatim>\<open>null\<close>, 0, the empty string, ...) the resolved handler is invoked, once. When the
  result carries no metadata the handler is called with a context whose \<^verbatim>\<open>auth\<close> is
  empty (and whose \<^verbatim>\<open>req\<close> and \<^verbatim>\<open>res\<close> are those of the call).
\<close>

theorem only_false_rejects:
  assumes registered: "map_get (rpc_functions (run ops)) m = Some fh"
    and names: "rpc_method requestData = JStr m"
    and shape: "\<not> (truthy (params requestData) \<and> \<not> isArray (params requestData))"
    and validated: "validator (run ops) rq = VReturned validation"
  shows "invoked (fst (handler (run ops) requestData rq rs))
           = (if vsuccess validation = JBool False then [] else [fh])
         \<and> (vsuccess validation \<in> {JUndefined, JNull, JNum 0, JStr [], JNaN, JBool True} \<longrightarrow>
              invoked (fst (handler (run ops) requestData rq rs)) = [fh])
         \<and> (vsuccess validation \<noteq> JBool False \<and> vmetadata validation = None \<longrightarrow>
              (\<exists>evs. fst (handler (run ops) requestData rq rs)
                 = ValidatorCall rq
                   # HandlerCall fh \<lparr>auth = Map.empty, req = Some rq, res = Some rs\<rparr>
                       (spread (params_or_empty (params requestData)))
                   # evs))"
proof -
  have m: "m \<noteq> []" using registered by (rule registered_nonempty)
  have inv: "invoked (fst (handler (run ops) requestData rq rs))
           = (if vsuccess validation = JBool False then [] else [fh])"
  proof (cases "vsuccess validation = JBool False")
    case True
    then show ?thesis
      by (simp add: handler_rejected [OF registered names m shape validated])
  next
    case False
    then show ?thesis
      by (simp add: handler_authorized [OF registered names m shape validated]
          invoked_try_call)
  qed
  have listed: "vsuccess validation \<in> {JUndefined, JNull, JNum 0, JStr [], JNaN, JBool True} \<Longrightarrow>
              invoked (fst (handler (run ops) requestData rq rs)) = [fh]"
    unfolding inv by auto
  have ctx: "\<exists>evs. fst (handler (run ops) requestData rq rs)
                 = ValidatorCall rq
                   # HandlerCall fh \<lparr>auth = Map.empty, req = Some rq, res = Some rs\<rparr>
                       (spread (params_or_empty (params requestData)))
                   # evs"
    if "vsuccess validation \<noteq> JBool False" and none: "vmetadata validation = None"
  proof -
    have md: "call_metadata validation rq rs = \<lparr>auth = Map.empty, req = Some rq, res = Some rs\<rparr>"
      using none by (simp add: call_metadata_def)
    obtain evs where "fst (try_call (run ops) fh (call_metadata validation rq rs)
                        (spread (params_or_empty (params requestData))))
                 = HandlerCall fh (call_metadata validation rq rs)
                       (spread (params_or_empty (params requestData))) # evs"
      using try_call_trace by blast
    then show ?thesis
      by (simp add: handler_authorized [OF registered names m shape validated that(1)] md)
  qed
  from inv listed ctx show ?thesis by blast
qed

theorem only_false_rejects_witness:
  "map_get (rpc_functions (run [Add echo None, SetValidator no_verdict])) ''echo'' = Some echo
   \<and> validator (run [Add echo None, SetValidator no_verdict]) some_request
       = VReturned \<lparr>vsuccess = JUndefined, vmetadata = None\<rparr>
   \<and> invoked (fst (handler (run [Add echo None, SetValidator no_verdict])
          \<lparr>rpc_method = JStr ''echo'', params = JArr [JNum 7], version = JNum 1\<rparr>
          some_request some_response)) = [echo]
   \<and> (\<exists>evs. fst (handler (run [Add echo None, SetValidator no_verdict])
          \<lparr>rpc_method = JStr ''echo'', params = JArr [JNum 7], version = JNum 1\<rparr>
          some_request some_response)
         = ValidatorCall some_request
           # HandlerCall echo \<lparr>auth = Map.empty, req = Some some_request, res = Some some_response\<rparr>
               [JNum 7]
           # evs)"
proof -
  have r: "run [Add echo None, SetValidator no_verdict]
             = \<lparr>error_handlers_registry = Map.empty, rpc_functions = [(''echo'', echo)],
                validator = no_verdict\<rparr>"
    by (simp add: run_with_validator) (simp add: echo_def)
  show ?thesis
    using only_false_rejects [where ops = "[Add echo None, SetValidator no_verdict]"
        and m = "''echo''" and fh = echo
        and requestData = "\<lparr>rpc_method = JStr ''echo'', params = JArr [JNum 7], version = JNum 1\<rparr>"
        and rq = some_request and rs = some_response
        and validation = "\<lparr>vsuccess = JUndefined, vmetadata = None\<rparr>"]
    unfolding r by (simp add: params_or_empty_def)
qed

text \<open>
  C8. After two calls of \<^verbatim>\<open>add\<close> that resolve to the same name, on any object built
  from \<^verbatim>\<open>new RPC()\<close>, the name is in the registry exactly once (the keys stay
  distinct), it resolves to the second handler, and an authorized dispatch of that
  name invokes the second handler and no other.
\<close>

theorem last_write_wins:
  assumes first: "add h1 o1 (run ops) = Inr st1"
    and second: "add h2 o2 st1 = Inr st2"
    and same: "resolved_name h1 o1 = resolved_name h2 o2"
  shows "count_list (dump st2) (resolved_name h2 o2) = 1
         \<and> distinct (dump st2)
         \<and> map_get (rpc_functions st2) (resolved_name h2 o2) = Some h2
         \<and> (rpc_method requestData = JStr (resolved_name h2 o2)
              \<and> \<not> (truthy (params requestData) \<and> \<not> isArray (params requestData))
              \<and> validator st2 rq = VReturned validation
              \<and> vsuccess validation \<noteq> JBool False \<longrightarrow>
            invoked (fst (handler st2 requestData rq rs)) = [h2])"
proof -
  let ?n = "resolved_name h2 o2"
  have n: "?n \<noteq> []"
    using second by (auto simp: add_def Let_def split: if_splits)
  have st1: "st1 = (run ops)\<lparr>rpc_functions := map_set (rpc_functions (run ops)) ?n h1\<rparr>"
    using first same n by (auto simp: add_def Let_def)
  have st2: "st2 = st1\<lparr>rpc_functions := map_set (rpc_functions st1) ?n h2\<rparr>"
    using second n by (auto simp: add_def Let_def)
  have dist: "distinct (dump st2)"
    using dump_run_distinct [of ops]
    by (simp add: st2 st1 dump_def distinct_map_set)
  have mem: "?n \<in> set (dump st2)"
    by (simp add: st2 dump_def map_keys_map_set)
  have cnt: "count_list (dump st2) ?n = 1"
    using dist mem by (rule count_list_distinct)
  have get: "map_get (rpc_functions st2) ?n = Some h2"
    by (simp add: st2 map_get_map_set)
  have inv: "invoked (fst (handler st2 requestData rq rs)) = [h2]"
    if "rpc_method requestData = JStr ?n"
      and "\<not> (truthy (params requestData) \<and> \<not> isArray (params requestData))"
      and "validator st2 rq = VReturned validation"
      and "vsuccess validation \<noteq> JBool False"
    by (simp add: handler_authorized [OF get that(1) n that(2) that(3) that(4)] invoked_try_call)
  show ?thesis
  proof (intro conjI impI)
    assume "rpc_method requestData = JStr ?n
              \<and> \<not> (truthy (params requestData) \<and> \<not> isArray (params requestData))
              \<and> validator st2 rq = VReturned validation
              \<and> vsuccess validation \<noteq> JBool False"
    then show "invoked (fst (handler st2 requestData rq rs)) = [h2]"
      using inv by simp
  qed (rule cnt, rule dist, rule get)
qed


theorem last_write_wins_witness:
  "add echo (Some ''job'') (run [])
     = Inr \<lparr>error_handlers_registry = Map.empty, rpc_functions = [(''job'', echo)],
            validator = default_validator\<rparr>
   \<and> add later (Some ''job'')
         \<lparr>error_handlers_registry = Map.empty, rpc_functions = [(''job'', echo)],
          validator = default_validator\<rparr>
     = Inr \<lparr>error_handlers_registry = Map.empty, rpc_functions = [(''job'', later)],
            validator = default_validator\<rparr>
   \<and> resolved_name echo (Some ''job'') = resolved_name later (Some ''job'')
   \<and> count_list (dump \<lparr>error_handlers_registry = Map.empty, rpc_functions = [(''job'', later)],
                         validator = default_validator\<rparr>) ''job'' = 1
   \<and> invoked (fst (handler \<lparr>error_handlers_registry = Map.empty,
                             rpc_functions = [(''job'', later)],
                             validator = default_validator\<rparr>
                      \<lparr>rpc_method = JStr ''job'', params = JArr [], version = JNum 1\<rparr>
                      some_request some_response)) = [later]"
proof -
  have a1: "add echo (Some ''job'') (run [])
     = Inr \<lparr>error_handlers_registry = Map.empty, rpc_functions = [(''job'', echo)],
            validator = default_validator\<rparr>"
    by (simp add: add_def Let_def resolved_name_def run_Nil new_RPC_def)
  have a2: "add later (Some ''job'')
         \<lparr>error_handlers_registry = Map.empty, rpc_functions = [(''job'', echo)],
          validator = default_validator\<rparr>
     = Inr \<lparr>error_handlers_registry = Map.empty, rpc_functions = [(''job'', later)],
            validator = default_validator\<rparr>"
    by (simp add: add_def Let_def resolved_name_def)
  have n: "resolved_name echo (Some ''job'') = resolved_name later (Some ''job'')"
    by (simp add: resolved_name_def)
  have n2: "resolved_name later (Some ''job'') = ''job''"
    by (simp add: resolved_name_def)
  show ?thesis
    using last_write_wins [OF a1 a2 n,
        where requestData = "\<lparr>rpc_method = JStr ''job'', params = JArr [], version = JNum 1\<rparr>"
        and rq = some_request and rs = some_response
        and validation = "\<lparr>vsuccess = JBool True, vmetadata = None\<rparr>"]
      a1 a2 n
    unfolding n2 by (simp add: default_validator_def)
qed

text \<open>
  C9. On any object built from \<^verbatim>\<open>new RPC()\<close>, \<^verbatim>\<open>dump\<close> returns exactly the names
  that resolve to a handler, without duplicates, in insertion order; and no sequence of
  operations without a successful or failed \<^verbatim>\<open>add\<close> (dispatches, \<^verbatim>\<open>dump\<close> itself,
  renderer registrations, a new validator) changes what it returns.
\<close>

theorem dump_lists_registered:
  "set (dump (run ops)) = {n. map_get (rpc_functions (run ops)) n \<noteq> None}
   \<and> distinct (dump (run ops))
   \<and> dump (run ops) = insertion_order (concat (map names_added ops))
   \<and> (\<forall>ops'. \<not> list_ex is_Add ops' \<longrightarrow> dump (run (ops @ ops')) = dump (run ops))"
proof -
  have a: "set (dump (run ops)) = {n. map_get (rpc_functions (run ops)) n \<noteq> None}"
    using dump_registered by blast
  have d: "\<forall>ops'. \<not> list_ex is_Add ops' \<longrightarrow> dump (run (ops @ ops')) = dump (run ops)"
    by (simp add: run_def dump_foldl_no_Add)
  show ?thesis
    by (intro conjI) (rule a, rule dump_run_distinct, rule dump_run_insertion_order, rule d)
qed

theorem dump_lists_registered_witness:
  "\<not> list_ex is_Add
       [Dispatch \<lparr>rpc_method = JStr ''echo'', params = JArr [], version = JNum 1\<rparr>
          some_request some_response, Dump, HandleError ''conflict'' say_conflict]
   \<and> dump (run ([Add later None, Add echo None, Add crash (Some ''later'')]
          @ [Dispatch \<lparr>rpc_method = JStr ''echo'', params = JArr [], version = JNum 1\<rparr>
               some_request some_response, Dump, HandleError ''conflict'' say_conflict]))
       = dump (run [Add later None, Add echo None, Add crash (Some ''later'')])
   \<and> dump (run [Add later None, Add echo None, Add crash (Some ''later'')]) = [''later'', ''echo'']"
proof -
  have n: "concat (map names_added [Add later None, Add echo None, Add crash (Some ''later'')])
             = [''later'', ''echo'', ''later'']"
    by (simp add: resolved_name_def later_def echo_def)
  show ?thesis
    using dump_lists_registered [of "[Add later None, Add echo None, Add crash (Some ''later'')]"]
    unfolding n by simp
qed

end
